theory Spec2Isabelle
  imports Main
begin

section \<open>Configuration (mos\_agent.py, lines 18--32)\<close>

text \<open>
  \<^verbatim>\<open>PROFILE_DIR\<close> and \<^verbatim>\<open>FALLBACK_PROFILE_DIR\<close> are read from the process
  environment when the module is imported, so they are fields of a configuration
  record. \<^verbatim>\<open>RESULTS_PER_QUERY_LIMIT\<close> is the literal 20.
\<close>

record config =
  PROFILE_DIR :: string
  FALLBACK_PROFILE_DIR :: string

definition RESULTS_PER_QUERY_LIMIT :: int where
  "RESULTS_PER_QUERY_LIMIT = 20"

section \<open>Session manager: \<^verbatim>\<open>_ensure_context\<close> (lines 198--231)\<close>

text \<open>
  The outside world of \<^verbatim>\<open>_ensure_context\<close>: closing a browser context and
  starting the automation engine may raise, and \<^verbatim>\<open>os.makedirs(p, exist_ok=True)\<close>
  succeeds, raises \<^verbatim>\<open>PermissionError\<close>, or raises another \<^verbatim>\<open>OSError\<close>.
\<close>

datatype mk_result = MkOk | MkPermissionError | MkOSError

record env =
  close_raises :: "nat \<Rightarrow> bool"
  start_raises :: bool
  makedirs :: "string \<Rightarrow> mk_result"

text \<open>Exceptions that leave a function are values; the effects are kept in a trace.\<close>

datatype error =
    CloseError nat
  | EngineStartError
  | OSError string
  | ValidationError "string list"

datatype event =
    CtxClosed nat
  | EngineStart
  | Makedirs string
  | Printed string

text \<open>
  The module globals \<^verbatim>\<open>_play\<close>, \<^verbatim>\<open>_ctx\<close>, \<^verbatim>\<open>_ctx_headless\<close> and
  \<^verbatim>\<open>_profile_dir_in_use\<close> (written without the leading underscore). A browser
  context is identified by a number; \<open>play\<close> says whether \<^verbatim>\<open>_play\<close> is set.
\<close>

record session_state =
  play :: bool
  ctx :: "nat option"
  ctx_headless :: "bool option"
  profile_dir_in_use :: string
  trace :: "event list"

text \<open>Lines 24 and 198--201: the globals as the module leaves them after import.\<close>

definition initial_state :: "config \<Rightarrow> session_state" where
  "initial_state cfg =
     \<lparr>play = False, ctx = None, ctx_headless = None,
      profile_dir_in_use = FALLBACK_PROFILE_DIR cfg, trace = []\<rparr>"

definition emit :: "event \<Rightarrow> session_state \<Rightarrow> session_state" where
  "emit ev s = s\<lparr>trace := trace s @ [ev]\<rparr>"

text \<open>Lines 208 and 211: \<^verbatim>\<open>_ctx is not None and _ctx_headless == headless\<close>.\<close>

definition ctx_matches :: "bool \<Rightarrow> session_state \<Rightarrow> bool" where
  "ctx_matches headless s = (ctx s \<noteq> None \<and> ctx_headless s = Some headless)"

text \<open>Lines 214--216: close the old context, then forget it.\<close>

definition close_ctx :: "env \<Rightarrow> session_state \<Rightarrow> error option \<times> session_state" where
  "close_ctx e s =
     (case ctx s of
        None \<Rightarrow> (None, s)
      | Some c \<Rightarrow>
          if close_raises e c then (Some (CloseError c), s)
          else (None, emit (CtxClosed c) (s\<lparr>ctx := None\<rparr>)))"

text \<open>Lines 217--218: the engine is started only while \<^verbatim>\<open>_play\<close> is unset.\<close>

definition start_play :: "env \<Rightarrow> session_state \<Rightarrow> error option \<times> session_state" where
  "start_play e s =
     (if play s then (None, s)
      else if start_raises e then (Some EngineStartError, emit EngineStart s)
      else (None, emit EngineStart (s\<lparr>play := True\<rparr>)))"

text \<open>
  Lines 222--225: the candidates, without empty strings and without repetitions,
  in the order of the tuple \<^verbatim>\<open>(_profile_dir_in_use, PROFILE_DIR, FALLBACK_PROFILE_DIR)\<close>.
\<close>

definition add_candidate :: "string list \<Rightarrow> string \<Rightarrow> string list" where
  "add_candidate candidate_paths cand =
     (if cand \<noteq> [] \<and> cand \<notin> set candidate_paths then candidate_paths @ [cand]
      else candidate_paths)"

definition candidate_paths :: "config \<Rightarrow> session_state \<Rightarrow> string list" where
  "candidate_paths cfg s =
     foldl add_candidate []
       [profile_dir_in_use s, PROFILE_DIR cfg, FALLBACK_PROFILE_DIR cfg]"

definition permission_message :: "string \<Rightarrow> string" where
  "permission_message candidate =
     ''[mos_agent] cannot create profile dir '' @ candidate @ '': permission denied''"

definition launch_message :: "bool \<Rightarrow> string" where
  "launch_message headless =
     ''[mos_agent] launching Playwright context (headless=''
       @ (if headless then ''True'' else ''False'') @ '')''"

text \<open>
  Lines 226--231: each candidate is recorded as attempted, then created. A
  \<^verbatim>\<open>PermissionError\<close> is caught and printed; any other error leaves the function.
  The loop body ends there: nothing is launched and nothing is assigned.
\<close>

fun makedirs_loop :: "env \<Rightarrow> string list \<Rightarrow> session_state \<Rightarrow> error option \<times> session_state" where
  "makedirs_loop e [] s = (None, s)"
| "makedirs_loop e (candidate # rest) s =
     (case makedirs e candidate of
        MkOk \<Rightarrow> makedirs_loop e rest (emit (Makedirs candidate) s)
      | MkPermissionError \<Rightarrow>
          makedirs_loop e rest
            (emit (Printed (permission_message candidate)) (emit (Makedirs candidate) s))
      | MkOSError \<Rightarrow> (Some (OSError candidate), emit (Makedirs candidate) s))"

text \<open>
  \<^verbatim>\<open>_ensure_context\<close>. The result is the raised error, or the returned value:
  \<open>Some c\<close> for the context \<open>c\<close> and \<open>None\<close> for Python's \<^verbatim>\<open>None\<close>, which is
  what a function returns when its body ends without \<^verbatim>\<open>return\<close>. The calls
  are modelled one at a time, so taking \<^verbatim>\<open>_ctx_lock\<close> changes nothing and the
  test of line 211 repeats the test of line 208.
\<close>

definition ensure_context ::
  "config \<Rightarrow> env \<Rightarrow> bool \<Rightarrow> session_state \<Rightarrow> (error + nat option) \<times> session_state" where
  "ensure_context cfg e headless s =
     (if ctx_matches headless s then (Inr (ctx s), s)
      else if ctx_matches headless s then (Inr (ctx s), s)
      else
        (case close_ctx e s of
           (Some err, s1) \<Rightarrow> (Inl err, s1)
         | (None, s1) \<Rightarrow>
             (case start_play e s1 of
                (Some err, s2) \<Rightarrow> (Inl err, s2)
              | (None, s2) \<Rightarrow>
                  (case makedirs_loop e (candidate_paths cfg s2)
                          (emit (Printed (launch_message headless)) s2) of
                     (Some err, s3) \<Rightarrow> (Inl err, s3)
                   | (None, s3) \<Rightarrow> (Inr None, s3)))))"

text \<open>The directories \<^verbatim>\<open>os.makedirs\<close> was called on, in the order of the calls.\<close>

fun attempted_dirs :: "event list \<Rightarrow> string list" where
  "attempted_dirs [] = []"
| "attempted_dirs (Makedirs p # es) = p # attempted_dirs es"
| "attempted_dirs (_ # es) = attempted_dirs es"

fun engine_starts :: "event list \<Rightarrow> nat" where
  "engine_starts [] = 0"
| "engine_starts (EngineStart # es) = Suc (engine_starts es)"
| "engine_starts (_ # es) = engine_starts es"

text \<open>Concrete worlds used to run the model.\<close>

definition default_config :: config where
  "default_config =
     \<lparr>PROFILE_DIR = ''/opt/mos_profile'', FALLBACK_PROFILE_DIR = ''/root/.mos_profile''\<rparr>"

definition env_ok :: env where
  "env_ok = \<lparr>close_raises = (\<lambda>_. False), start_raises = False, makedirs = (\<lambda>_. MkOk)\<rparr>"

definition env_unwritable :: env where
  "env_unwritable =
     \<lparr>close_raises = (\<lambda>_. False), start_raises = False,
      makedirs = (\<lambda>_. MkPermissionError)\<rparr>"

definition env_no_engine :: env where
  "env_no_engine =
     \<lparr>close_raises = (\<lambda>_. False), start_raises = True, makedirs = (\<lambda>_. MkOk)\<rparr>"

definition live_state :: "config \<Rightarrow> nat \<Rightarrow> bool \<Rightarrow> session_state" where
  "live_state cfg c headless =
     (initial_state cfg)\<lparr>play := True, ctx := Some c, ctx_headless := Some headless\<rparr>"

definition env_fallback_denied :: env where
  "env_fallback_denied =
     \<lparr>close_raises = (\<lambda>_. False), start_raises = False,
      makedirs = (\<lambda>p. if p = ''/root/.mos_profile'' then MkPermissionError else MkOk)\<rparr>"

text \<open>Two calls of \<^verbatim>\<open>_ensure_context\<close> in a row, the second on the state the first left.\<close>

definition acquire_twice ::
  "config \<Rightarrow> env \<Rightarrow> bool \<Rightarrow> bool \<Rightarrow> session_state
     \<Rightarrow> (error + nat option) \<times> (error + nat option) \<times> session_state" where
  "acquire_twice cfg e h1 h2 s =
     (case ensure_context cfg e h1 s of
        (r1, s1) \<Rightarrow> (case ensure_context cfg e h2 s1 of (r2, s2) \<Rightarrow> (r1, r2, s2)))"

text \<open>The directories a call attempted: those of the trace after it, less those before.\<close>

definition new_attempts :: "session_state \<Rightarrow> session_state \<Rightarrow> string list" where
  "new_attempts s s' = drop (length (attempted_dirs (trace s))) (attempted_dirs (trace s'))"

section \<open>Request models and the search endpoint (lines 12, 175--194, 234--239)\<close>

text \<open>
  The pydantic models \<^verbatim>\<open>SearchRequest\<close> and \<^verbatim>\<open>LogSearchRequest\<close>. Both have a
  field \<^verbatim>\<open>max_per_query\<close>; the second is written \<open>log_max_per_query\<close> here.
\<close>

record SearchRequest =
  queries :: "string list"
  max_per_query :: int

record LogSearchRequest =
  log_text :: string
  max_queries :: int
  log_max_per_query :: int

text \<open>Lines 186--190: \<^verbatim>\<open>ChatMessage\<close>, whose role is one of four literals.\<close>

datatype role = System | User | Assistant | Tool

record ChatMessage =
  role :: role
  content :: string
  tool_call_id :: "string option"

text \<open>
  A request body before validation: a field the body leaves out is \<open>None\<close>. The
  bodies are well typed (a list of strings, integers); coercion of other JSON values
  is not modelled.
\<close>

record search_body =
  body_queries :: "string list option"
  body_max_per_query :: "int option"

record log_search_body =
  body_log_text :: "string option"
  body_max_queries :: "int option"
  body_log_max_per_query :: "int option"

text \<open>
  \<^verbatim>\<open>Field(d, ge=lo, le=hi)\<close> takes the default \<open>d\<close> for a missing field and
  reports the field when its value is outside \<open>lo..hi\<close>.
\<close>

definition with_default :: "int \<Rightarrow> int option \<Rightarrow> int" where
  "with_default d v = (case v of None \<Rightarrow> d | Some x \<Rightarrow> x)"

definition check_bounds :: "string \<Rightarrow> int \<Rightarrow> int \<Rightarrow> int \<Rightarrow> string list" where
  "check_bounds field lo hi v = (if lo \<le> v \<and> v \<le> hi then [] else [field])"

text \<open>
  Lines 175--177: \<^verbatim>\<open>queries\<close> is required, with \<^verbatim>\<open>min_items=1\<close> and
  \<^verbatim>\<open>max_items=25\<close>; \<^verbatim>\<open>max_per_query\<close> defaults to 5, with \<^verbatim>\<open>ge=1\<close> and
  \<^verbatim>\<open>le=RESULTS_PER_QUERY_LIMIT\<close>. Validation raises an error that lists the
  offending fields, or builds the model from the values as they were given.
\<close>

definition validate_SearchRequest :: "search_body \<Rightarrow> error + SearchRequest" where
  "validate_SearchRequest b =
     (let mpq = with_default 5 (body_max_per_query b);
          errs =
            (case body_queries b of
               None \<Rightarrow> [''queries'']
             | Some qs \<Rightarrow> check_bounds ''queries'' 1 25 (int (length qs)))
            @ check_bounds ''max_per_query'' 1 RESULTS_PER_QUERY_LIMIT mpq
      in case (errs, body_queries b) of
           ([], Some qs) \<Rightarrow> Inr \<lparr>queries = qs, max_per_query = mpq\<rparr>
         | _ \<Rightarrow> Inl (ValidationError errs))"

text \<open>
  Lines 180--183: \<^verbatim>\<open>log_text\<close> is required, with \<^verbatim>\<open>min_length=1\<close>;
  \<^verbatim>\<open>max_queries\<close> defaults to 5 within 1..25 and \<^verbatim>\<open>max_per_query\<close> to 5
  within 1..\<^verbatim>\<open>RESULTS_PER_QUERY_LIMIT\<close>.
\<close>

definition validate_LogSearchRequest :: "log_search_body \<Rightarrow> error + LogSearchRequest" where
  "validate_LogSearchRequest b =
     (let mq = with_default 5 (body_max_queries b);
          mpq = with_default 5 (body_log_max_per_query b);
          errs =
            (case body_log_text b of
               None \<Rightarrow> [''log_text'']
             | Some txt \<Rightarrow> if 1 \<le> length txt then [] else [''log_text''])
            @ check_bounds ''max_queries'' 1 25 mq
            @ check_bounds ''max_per_query'' 1 RESULTS_PER_QUERY_LIMIT mpq
      in case (errs, body_log_text b) of
           ([], Some txt) \<Rightarrow>
             Inr \<lparr>log_text = txt, max_queries = mq, log_max_per_query = mpq\<rparr>
         | _ \<Rightarrow> Inl (ValidationError errs))"

text \<open>
  The process-wide state a request handler sees: \<^verbatim>\<open>last_search_data\<close> (line 12,
  initially \<^verbatim>\<open>None\<close>) and the globals of the session manager.
\<close>

record 'r app_state =
  last_search_data :: "'r option"
  session :: session_state

text \<open>
  Lines 234--239: \<^verbatim>\<open>search\<close>. The function \<^verbatim>\<open>_execute_queries\<close> it awaits is
  not defined in the source file, so it is the parameter \<open>exec\<close>: any function of
  the queries, the cap and the state that raises or returns a result. When it raises,
  the assignment of line 238 is not reached.
\<close>

definition search ::
  "(string list \<Rightarrow> int \<Rightarrow> 'r app_state \<Rightarrow> (error + 'r) \<times> 'r app_state)
     \<Rightarrow> SearchRequest \<Rightarrow> 'r app_state \<Rightarrow> (error + 'r) \<times> 'r app_state" where
  "search exec req s =
     (case exec (queries req) (max_per_query req) s of
        (Inl err, s1) \<Rightarrow> (Inl err, s1)
      | (Inr result, s1) \<Rightarrow> (Inr result, s1\<lparr>last_search_data := Some result\<rparr>))"

text \<open>
  The route \<^verbatim>\<open>POST /search\<close>: the framework validates the body against the
  handler's parameter type and calls the handler only with a valid model. The handler
  of \<^verbatim>\<open>/search/log\<close> is not in the source file and is a parameter.
\<close>

definition post_search ::
  "(string list \<Rightarrow> int \<Rightarrow> 'r app_state \<Rightarrow> (error + 'r) \<times> 'r app_state)
     \<Rightarrow> search_body \<Rightarrow> 'r app_state \<Rightarrow> (error + 'r) \<times> 'r app_state" where
  "post_search exec body s =
     (case validate_SearchRequest body of
        Inl err \<Rightarrow> (Inl err, s)
      | Inr req \<Rightarrow> search exec req s)"

definition post_search_log ::
  "(LogSearchRequest \<Rightarrow> 'st \<Rightarrow> (error + 'a) \<times> 'st)
     \<Rightarrow> log_search_body \<Rightarrow> 'st \<Rightarrow> (error + 'a) \<times> 'st" where
  "post_search_log handler body s =
     (case validate_LogSearchRequest body of
        Inl err \<Rightarrow> (Inl err, s)
      | Inr req \<Rightarrow> handler req s)"

section \<open>The tool schema \<^verbatim>\<open>LLM_TOOLS\<close> (lines 34--104)\<close>

text \<open>JSON values as the schema uses them; an object keeps its keys in order.\<close>

datatype json =
    JString string
  | JInt int
  | JArray "json list"
  | JObject "(string \<times> json) list"

definition LLM_TOOLS :: "json list" where
  "LLM_TOOLS =
     [JObject
        [(''type'', JString ''function''),
         (''function'', JObject
            [(''name'', JString ''search_mos''),
             (''description'',
                JString ''Search My Oracle Support for specific error codes or phrases.''),
             (''parameters'', JObject
                [(''type'', JString ''object''),
                 (''properties'', JObject
                    [(''queries'', JObject
                        [(''type'', JString ''array''),
                         (''items'', JObject [(''type'', JString ''string'')]),
                         (''minItems'', JInt 1),
                         (''maxItems'', JInt 5),
                         (''description'', JString ''List of focused MOS search queries.'')]),
                     (''max_per_query'', JObject
                        [(''type'', JString ''integer''),
                         (''minimum'', JInt 1),
                         (''maximum'', JInt RESULTS_PER_QUERY_LIMIT),
                         (''default'', JInt 5)])]),
                 (''required'', JArray [JString ''queries''])])])],
      JObject
        [(''type'', JString ''function''),
         (''function'', JObject
            [(''name'', JString ''search_mos_from_log''),
             (''description'', JString ''Derive MOS searches from a raw log snippet.''),
             (''parameters'', JObject
                [(''type'', JString ''object''),
                 (''properties'', JObject
                    [(''log_text'', JObject [(''type'', JString ''string'')]),
                     (''max_queries'', JObject
                        [(''type'', JString ''integer''),
                         (''minimum'', JInt 1),
                         (''maximum'', JInt 25),
                         (''default'', JInt 5)]),
                     (''max_per_query'', JObject
                        [(''type'', JString ''integer''),
                         (''minimum'', JInt 1),
                         (''maximum'', JInt RESULTS_PER_QUERY_LIMIT),
                         (''default'', JInt 5)])]),
                 (''required'', JArray [JString ''log_text''])])])],
      JObject
        [(''type'', JString ''function''),
         (''function'', JObject
            [(''name'', JString ''get_document''),
             (''description'',
                JString ''Retrieve the full content of a specific Oracle Support document by its Doc ID.''),
             (''parameters'', JObject
                [(''type'', JString ''object''),
                 (''properties'', JObject
                    [(''doc_id'', JObject
                        [(''type'', JString ''string''),
                         (''description'',
                            JString ''The Doc ID of the Oracle Support document to retrieve.'')])]),
                 (''required'', JArray [JString ''doc_id''])])])]]"

text \<open>Reading a key of an object, a path of keys, and the tool of a given name.\<close>

fun jget :: "string \<Rightarrow> json \<Rightarrow> json option" where
  "jget k (JObject kvs) = map_of kvs k"
| "jget k _ = None"

fun jpath :: "string list \<Rightarrow> json \<Rightarrow> json option" where
  "jpath [] j = Some j"
| "jpath (k # ks) j = (case jget k j of None \<Rightarrow> None | Some j' \<Rightarrow> jpath ks j')"

definition find_tool :: "string \<Rightarrow> json option" where
  "find_tool name =
     List.find (\<lambda>t. jpath [''function'', ''name''] t = Some (JString name)) LLM_TOOLS"

definition tool_param :: "string \<Rightarrow> string \<Rightarrow> string \<Rightarrow> json option" where
  "tool_param name prop keyword =
     (case find_tool name of
        None \<Rightarrow> None
      | Some t \<Rightarrow> jpath [''function'', ''parameters'', ''properties'', prop, keyword] t)"

text \<open>
  The arguments of a tool call that the schema of tool \<open>name\<close> admits, as far as
  the bounds on \<^verbatim>\<open>queries\<close> (\<^verbatim>\<open>minItems\<close>, \<^verbatim>\<open>maxItems\<close>) and on
  \<^verbatim>\<open>max_per_query\<close> (\<^verbatim>\<open>minimum\<close>, \<^verbatim>\<open>maximum\<close>) go.
\<close>

definition within_schema :: "string \<Rightarrow> string list \<Rightarrow> int \<Rightarrow> bool" where
  "within_schema name qs mpq =
     (case (tool_param name ''queries'' ''minItems'', tool_param name ''queries'' ''maxItems'',
            tool_param name ''max_per_query'' ''minimum'',
            tool_param name ''max_per_query'' ''maximum'') of
        (Some (JInt lo), Some (JInt hi), Some (JInt mlo), Some (JInt mhi)) \<Rightarrow>
          lo \<le> int (length qs) \<and> int (length qs) \<le> hi \<and> mlo \<le> mpq \<and> mpq \<le> mhi
      | _ \<Rightarrow> False)"

section \<open>Selector chains (lines 106--120)\<close>

text \<open>
  The selectors of the global search box. \<open>bs\<close> is the backslash that escapes
  the colons of the first selector.
\<close>

definition bs :: string where
  "bs = [CHR 0x5C]"

definition GLOBAL_SEARCH_ARIA :: string where
  "GLOBAL_SEARCH_ARIA = ''aria/Global Search[role=\"textbox\"]''"

definition SEARCH_BOX_SELECTORS :: "string list" where
  "SEARCH_BOX_SELECTORS =
     [''#pt1'' @ bs @ '':svMenu'' @ bs @ '':gsb'' @ bs @ '':subFgsb'' @ bs
        @ '':mGlobalSearch'' @ bs @ '':pt_itG'' @ bs @ '':'' @ bs @ '':content'',
      GLOBAL_SEARCH_ARIA,
      ''input[id*=\"mGlobalSearch\" i]'',
      ''div[role=\"search\"] input'',
      ''input[aria-label*=\"Global Search\" i]'',
      ''input[aria-label*=\"Search\" i]'',
      ''input[placeholder*=\"Search\" i]'',
      ''input[type=\"search\"]'',
      ''input[id*=\"search\" i]'',
      ''input[name*=\"search\" i]'']"

section \<open>Components the source file does not contain\<close>

text \<open>
  The source file defines no locator, no query pipeline and no chat loop: it holds
  their data (the selector lists, the tool schema, the request models) and the caller
  \<^verbatim>\<open>search\<close>. The definitions of this section follow the specification's
  sections 4.3, 4.4, 4.6 and 7.
\<close>

subsection \<open>Error taxonomy\<close>

text \<open>
  Modelled from the spec: the error taxonomy of section 7 (the source defines no
  exception class). \<open>ElementNotFound\<close> names the logical target and the number of
  candidates tried.
\<close>

datatype core_error =
    SessionUnavailable
  | AuthenticationRequired
  | AuthenticationFailed
  | ElementNotFound string nat
  | NavigationTimeout
  | DocumentNotFound
  | DocumentFetchTimeout

subsection \<open>Resilient element locator\<close>

text \<open>
  Modelled from the spec: \<^verbatim>\<open>locate\<close> of section 4.3, which the source does not
  define. It iterates the chain in order, returns on the first selector that resolves,
  and fails with \<open>ElementNotFound\<close> when the chain is exhausted. \<open>page sel\<close> is
  the visible, interactable element the selector resolves to within its timeout, if
  any; the second component lists the selectors attempted.
\<close>

fun locate_from ::
  "(string \<Rightarrow> 'el option) \<Rightarrow> string \<Rightarrow> string list \<Rightarrow> string list
     \<Rightarrow> (core_error + 'el) \<times> string list" where
  "locate_from page target [] tried = (Inl (ElementNotFound target (length tried)), tried)"
| "locate_from page target (sel # rest) tried =
     (case page sel of
        Some el \<Rightarrow> (Inr el, tried @ [sel])
      | None \<Rightarrow> locate_from page target rest (tried @ [sel]))"

text \<open>Modelled from the spec: \<^verbatim>\<open>locate\<close> of section 4.3, started with nothing attempted.\<close>

definition locate ::
  "(string \<Rightarrow> 'el option) \<Rightarrow> string \<Rightarrow> string list \<Rightarrow> (core_error + 'el) \<times> string list" where
  "locate page target chain = locate_from page target chain []"

subsection \<open>Search execution pipeline\<close>

text \<open>Modelled from the spec: \<^verbatim>\<open>SearchResult\<close> of section 3.\<close>

record SearchResult =
  doc_id :: "string option"
  title :: string
  url :: string
  snippet :: string

text \<open>
  Modelled from the spec: a node of the portal's results list (section 4.4); its
  title or link may be missing.
\<close>

record result_node =
  node_doc_id :: "string option"
  node_title :: "string option"
  node_url :: "string option"
  node_snippet :: string

text \<open>
  Modelled from the spec: what submitting one query yields (sections 4.4 and 7), the
  results view or a failure.
\<close>

datatype query_outcome =
    ResultsView "result_node list"
  | QueryFailure core_error

text \<open>
  Modelled from the spec: section 4.4, a result node with a missing title or link is
  skipped.
\<close>

definition parse_node :: "result_node \<Rightarrow> SearchResult option" where
  "parse_node n =
     (case (node_title n, node_url n) of
        (Some t, Some u) \<Rightarrow>
          Some \<lparr>doc_id = node_doc_id n, title = t, url = u, snippet = node_snippet n\<rparr>
      | _ \<Rightarrow> None)"

text \<open>
  Modelled from the spec: section 3, results are deduplicated by
  \<^verbatim>\<open>(doc_id or url)\<close>.
\<close>

definition result_key :: "SearchResult \<Rightarrow> string" where
  "result_key r = (case doc_id r of None \<Rightarrow> url r | Some d \<Rightarrow> if d = [] then url r else d)"

text \<open>
  Modelled from the spec: the extraction of section 4.4, which the source does not
  define. It walks the results list in order, stops once the cap is reached, skips
  malformed nodes and results whose key was already seen.
\<close>

fun extract_results :: "nat \<Rightarrow> result_node list \<Rightarrow> SearchResult list \<Rightarrow> SearchResult list" where
  "extract_results cap [] acc = acc"
| "extract_results cap (n # ns) acc =
     (if cap \<le> length acc then acc
      else case parse_node n of
             None \<Rightarrow> extract_results cap ns acc
           | Some r \<Rightarrow>
               if result_key r \<in> set (map result_key acc) then extract_results cap ns acc
               else extract_results cap ns (acc @ [r]))"

text \<open>
  Modelled from the spec: section 4.4, up to \<^verbatim>\<open>max_per_query\<close> results with the
  hard ceiling \<^verbatim>\<open>RESULTS_PER_QUERY_LIMIT\<close> whatever the caller requested.
\<close>

definition effective_cap :: "int \<Rightarrow> nat" where
  "effective_cap mpq = nat (min mpq RESULTS_PER_QUERY_LIMIT)"

text \<open>
  Modelled from the spec: section 7, only session and authentication failures
  propagate as hard errors; every other failure is local to its query.
\<close>

definition fatal :: "core_error \<Rightarrow> bool" where
  "fatal err = (err = SessionUnavailable \<or> err = AuthenticationRequired
                 \<or> err = AuthenticationFailed)"

text \<open>
  Modelled from the spec: section 4.4, the results one query contributes: its capped
  extraction, or nothing when the query failed. \<open>portal i q\<close> is what the portal
  shows for query \<open>q\<close> submitted at position \<open>i\<close> of the batch.
\<close>

definition query_results ::
  "(nat \<Rightarrow> string \<Rightarrow> query_outcome) \<Rightarrow> int \<Rightarrow> nat \<Rightarrow> string \<Rightarrow> SearchResult list" where
  "query_results portal mpq i q =
     (case portal i q of
        ResultsView nodes \<Rightarrow> extract_results (effective_cap mpq) nodes []
      | QueryFailure err \<Rightarrow> [])"

text \<open>
  Modelled from the spec: the loop of \<^verbatim>\<open>_execute_queries\<close> (section 4.4), which
  the source calls but does not define. Queries run in submission order; a failed
  query is recorded as zero results and the next query runs; a session or
  authentication failure is raised.
\<close>

fun execute_from ::
  "(nat \<Rightarrow> string \<Rightarrow> query_outcome) \<Rightarrow> int \<Rightarrow> nat \<Rightarrow> string list \<Rightarrow> SearchResult list
     \<Rightarrow> core_error + SearchResult list" where
  "execute_from portal mpq i [] acc = Inr acc"
| "execute_from portal mpq i (q # qs) acc =
     (case portal i q of
        ResultsView nodes \<Rightarrow>
          execute_from portal mpq (Suc i) qs
            (acc @ extract_results (effective_cap mpq) nodes [])
      | QueryFailure err \<Rightarrow>
          if fatal err then Inl err
          else execute_from portal mpq (Suc i) qs acc)"

text \<open>Modelled from the spec: \<^verbatim>\<open>_execute_queries\<close> (section 4.4), from the first query.\<close>

definition execute_queries ::
  "(nat \<Rightarrow> string \<Rightarrow> query_outcome) \<Rightarrow> string list \<Rightarrow> int
     \<Rightarrow> core_error + SearchResult list" where
  "execute_queries portal qs mpq = execute_from portal mpq 0 qs []"

subsection \<open>Tool-dispatch loop\<close>

text \<open>Modelled from the spec: \<^verbatim>\<open>ToolCall\<close> of section 3.\<close>

record ToolCall =
  name :: string
  arguments :: string
  call_id :: string

text \<open>
  Modelled from the spec: a response of the LLM (section 4.6), a message with zero or
  more tool calls.
\<close>

record llm_response =
  response_content :: string
  tool_calls :: "ToolCall list"

text \<open>Modelled from the spec: the two terminal states of section 4.6.\<close>

datatype terminal_state = Answered | Exhausted

text \<open>
  Modelled from the spec: what \<^verbatim>\<open>respond\<close> returns (section 4.6): the terminal
  state, the answer, the flag that the round cap was hit, and with them the rounds
  used, the conversation and the state of the tools.
\<close>

record 'w respond_result =
  final_state :: terminal_state
  reply :: string
  cap_hit :: bool
  rounds :: nat
  conversation :: "ChatMessage list"
  world :: 'w

text \<open>
  Modelled from the spec: section 4.6, each tool call is executed in order and its
  result, or its error as text, is appended as one tool message keyed by its call id.
\<close>

fun execute_tools ::
  "(ToolCall \<Rightarrow> 'w \<Rightarrow> string \<times> 'w) \<Rightarrow> ToolCall list \<Rightarrow> 'w \<Rightarrow> ChatMessage list \<times> 'w" where
  "execute_tools run_tool [] w = ([], w)"
| "execute_tools run_tool (c # cs) w =
     (case run_tool c w of
        (out, w1) \<Rightarrow>
          (case execute_tools run_tool cs w1 of
             (msgs, w2) \<Rightarrow>
               (\<lparr>role = Tool, content = out, tool_call_id = Some (call_id c)\<rparr> # msgs, w2)))"

text \<open>
  Modelled from the spec: the loop of section 4.6, which the source does not define.
  \<open>left\<close> counts the rounds the cap still allows and \<open>used\<close> the rounds made;
  \<open>llm i conv\<close> is the response to the conversation submitted in round \<open>i\<close>. A
  response without tool calls is the final answer; otherwise the tools run, their
  messages are appended and the conversation is resubmitted; with no round left the
  loop ends exhausted with the last response as its partial answer.
\<close>

fun dispatch_loop ::
  "(nat \<Rightarrow> ChatMessage list \<Rightarrow> llm_response) \<Rightarrow> (ToolCall \<Rightarrow> 'w \<Rightarrow> string \<times> 'w)
     \<Rightarrow> nat \<Rightarrow> nat \<Rightarrow> string \<Rightarrow> ChatMessage list \<Rightarrow> 'w \<Rightarrow> 'w respond_result" where
  "dispatch_loop llm run_tool 0 used partial conv w =
     \<lparr>final_state = Exhausted, reply = partial, cap_hit = True, rounds = used,
      conversation = conv, world = w\<rparr>"
| "dispatch_loop llm run_tool (Suc left) used partial conv w =
     (let resp = llm used conv;
          conv1 = conv @ [\<lparr>role = Assistant, content = response_content resp,
                            tool_call_id = None\<rparr>]
      in if tool_calls resp = [] then
           \<lparr>final_state = Answered, reply = response_content resp, cap_hit = False,
            rounds = Suc used, conversation = conv1, world = w\<rparr>
         else
           (case execute_tools run_tool (tool_calls resp) w of
              (msgs, w1) \<Rightarrow>
                dispatch_loop llm run_tool left (Suc used) (response_content resp)
                  (conv1 @ msgs) w1))"

text \<open>
  Modelled from the spec: \<^verbatim>\<open>respond\<close> of section 4.6 under the round cap
  \<open>round_cap\<close>.
\<close>

definition respond ::
  "nat \<Rightarrow> (nat \<Rightarrow> ChatMessage list \<Rightarrow> llm_response) \<Rightarrow> (ToolCall \<Rightarrow> 'w \<Rightarrow> string \<times> 'w)
     \<Rightarrow> ChatMessage list \<Rightarrow> 'w \<Rightarrow> 'w respond_result" where
  "respond round_cap llm run_tool conv w = dispatch_loop llm run_tool round_cap 0 [] conv w"

section \<open>Concrete inputs\<close>

text \<open>Requests, handlers, pages, portals and LLMs on which the model is run below.\<close>

definition echo_queries ::
  "string list \<Rightarrow> int \<Rightarrow> (string list) app_state
     \<Rightarrow> (error + string list) \<times> (string list) app_state" where
  "echo_queries qs m s = (Inr (take (nat m) qs), s)"

definition app0 :: "(string list) app_state" where
  "app0 = \<lparr>last_search_data = None, session = initial_state default_config\<rparr>"

definition too_many_results :: search_body where
  "too_many_results = \<lparr>body_queries = Some [''ORA-00600''], body_max_per_query = Some 21\<rparr>"

definition widest_search :: search_body where
  "widest_search =
     \<lparr>body_queries = Some (replicate 25 ''ORA-00600''), body_max_per_query = Some 20\<rparr>"

definition empty_log :: log_search_body where
  "empty_log =
     \<lparr>body_log_text = Some [], body_max_queries = None, body_log_max_per_query = None\<rparr>"

definition plain_log :: log_search_body where
  "plain_log =
     \<lparr>body_log_text = Some ''ORA-00600: internal error code'', body_max_queries = None,
      body_log_max_per_query = None\<rparr>"

definition no_handler :: "LogSearchRequest \<Rightarrow> nat \<Rightarrow> (error + string list) \<times> nat" where
  "no_handler req n = (Inr [log_text req], Suc n)"

definition six_queries :: search_body where
  "six_queries = \<lparr>body_queries = Some (replicate 6 ''ORA-00600''), body_max_per_query = None\<rparr>"

definition aria_only_page :: "string \<Rightarrow> nat option" where
  "aria_only_page sel = (if sel = GLOBAL_SEARCH_ARIA then Some 1 else None)"

definition blank_page :: "string \<Rightarrow> nat option" where
  "blank_page sel = None"

definition note_node :: "string \<Rightarrow> result_node" where
  "note_node d =
     \<lparr>node_doc_id = Some d, node_title = Some (''Note '' @ d),
      node_url = Some (''https://support.oracle.com/doc/'' @ d), node_snippet = []\<rparr>"

definition broken_node :: result_node where
  "broken_node = \<lparr>node_doc_id = None, node_title = None, node_url = None, node_snippet = []\<rparr>"

definition demo_portal :: "nat \<Rightarrow> string \<Rightarrow> query_outcome" where
  "demo_portal i q =
     (if i = 1 then QueryFailure (ElementNotFound ''global search box'' 10)
      else ResultsView [note_node (q @ ''.1''), broken_node, note_node (q @ ''.1''),
                        note_node (q @ ''.2''), note_node (q @ ''.3'')])"

definition direct_llm :: "nat \<Rightarrow> ChatMessage list \<Rightarrow> llm_response" where
  "direct_llm i conv = \<lparr>response_content = ''ORA-00600 is an internal error.'', tool_calls = []\<rparr>"

definition greedy_llm :: "nat \<Rightarrow> ChatMessage list \<Rightarrow> llm_response" where
  "greedy_llm i conv =
     \<lparr>response_content = ''searching'',
      tool_calls = [\<lparr>name = ''search_mos'', arguments = ''{\"queries\": [\"ORA-00600\"]}'',
                     call_id = ''call''\<rparr>]\<rparr>"

definition count_tool :: "ToolCall \<Rightarrow> nat \<Rightarrow> string \<times> nat" where
  "count_tool c n = (''[]'', Suc n)"

definition ask :: "ChatMessage list" where
  "ask = [\<lparr>role = User, content = ''What is ORA-00600?'', tool_call_id = None\<rparr>]"

section \<open>Properties of the session manager\<close>

subsection \<open>Traces and frames\<close>

lemma attempted_dirs_append: "attempted_dirs (xs @ ys) = attempted_dirs xs @ attempted_dirs ys"
  by (induction xs rule: attempted_dirs.induct) simp_all

lemma engine_starts_append: "engine_starts (xs @ ys) = engine_starts xs + engine_starts ys"
  by (induction xs rule: engine_starts.induct) simp_all

lemma candidate_paths_explicit:
  "candidate_paths cfg s =
     (if profile_dir_in_use s \<noteq> [] then [profile_dir_in_use s] else [])
     @ (if PROFILE_DIR cfg \<noteq> [] \<and> PROFILE_DIR cfg \<noteq> profile_dir_in_use s
        then [PROFILE_DIR cfg] else [])
     @ (if FALLBACK_PROFILE_DIR cfg \<noteq> []
           \<and> FALLBACK_PROFILE_DIR cfg \<noteq> profile_dir_in_use s
           \<and> FALLBACK_PROFILE_DIR cfg \<noteq> PROFILE_DIR cfg
        then [FALLBACK_PROFILE_DIR cfg] else [])"
  by (auto simp: candidate_paths_def add_candidate_def)

lemma makedirs_loop_attempts:
  "attempted_dirs (trace (snd (makedirs_loop e cs s)))
     = attempted_dirs (trace s)
       @ takeWhile (\<lambda>p. makedirs e p \<noteq> MkOSError) cs
       @ take 1 (dropWhile (\<lambda>p. makedirs e p \<noteq> MkOSError) cs)"
  by (induction cs arbitrary: s)
     (auto simp: emit_def attempted_dirs_append split: mk_result.splits)

lemma makedirs_loop_frame:
  "ctx (snd (makedirs_loop e cs s)) = ctx s
   \<and> ctx_headless (snd (makedirs_loop e cs s)) = ctx_headless s
   \<and> play (snd (makedirs_loop e cs s)) = play s
   \<and> profile_dir_in_use (snd (makedirs_loop e cs s)) = profile_dir_in_use s
   \<and> engine_starts (trace (snd (makedirs_loop e cs s))) = engine_starts (trace s)"
  by (induction cs arbitrary: s)
     (auto simp: emit_def engine_starts_append split: mk_result.splits)

lemma close_ctx_frame:
  "play (snd (close_ctx e s)) = play s
   \<and> ctx_headless (snd (close_ctx e s)) = ctx_headless s
   \<and> profile_dir_in_use (snd (close_ctx e s)) = profile_dir_in_use s
   \<and> attempted_dirs (trace (snd (close_ctx e s))) = attempted_dirs (trace s)
   \<and> engine_starts (trace (snd (close_ctx e s))) = engine_starts (trace s)"
  by (simp add: close_ctx_def emit_def attempted_dirs_append engine_starts_append
        split: option.splits)

lemma close_ctx_ok:
  "fst (close_ctx e s) = None \<Longrightarrow> ctx (snd (close_ctx e s)) = None"
  by (cases "ctx s") (auto simp: close_ctx_def emit_def split: if_splits)

lemma close_ctx_no_raise:
  "\<forall>c. ctx s = Some c \<longrightarrow> \<not> close_raises e c \<Longrightarrow> fst (close_ctx e s) = None"
  by (cases "ctx s") (simp_all add: close_ctx_def)

lemma start_play_frame:
  "ctx (snd (start_play e s)) = ctx s
   \<and> ctx_headless (snd (start_play e s)) = ctx_headless s
   \<and> profile_dir_in_use (snd (start_play e s)) = profile_dir_in_use s
   \<and> attempted_dirs (trace (snd (start_play e s))) = attempted_dirs (trace s)"
  by (simp add: start_play_def emit_def attempted_dirs_append)

lemma start_play_raises:
  "\<not> play s \<Longrightarrow> start_raises e \<Longrightarrow> start_play e s = (Some EngineStartError, emit EngineStart s)"
  by (simp add: start_play_def)

lemma start_play_no_raise:
  "play s \<or> \<not> start_raises e \<Longrightarrow> fst (start_play e s) = None"
  by (auto simp: start_play_def)

lemma candidate_paths_cong:
  "profile_dir_in_use s' = profile_dir_in_use s \<Longrightarrow> candidate_paths cfg s' = candidate_paths cfg s"
  by (simp add: candidate_paths_def)

lemma ensure_context_slow:
  assumes "\<not> ctx_matches headless s"
      and "fst (close_ctx e s) = None"
      and "fst (start_play e (snd (close_ctx e s))) = None"
  shows "ensure_context cfg e headless s =
           (case makedirs_loop e (candidate_paths cfg s)
                   (emit (Printed (launch_message headless))
                      (snd (start_play e (snd (close_ctx e s))))) of
              (Some err, s3) \<Rightarrow> (Inl err, s3)
            | (None, s3) \<Rightarrow> (Inr None, s3))"
proof -
  obtain s1 where c: "close_ctx e s = (None, s1)"
    using assms(2) by (cases "close_ctx e s") simp
  obtain s2 where p: "start_play e s1 = (None, s2)"
    using assms(3) c by (cases "start_play e s1") simp
  have "profile_dir_in_use s2 = profile_dir_in_use s"
    using close_ctx_frame[of e s] start_play_frame[of e s1] c p by simp
  then have "candidate_paths cfg s2 = candidate_paths cfg s"
    by (rule candidate_paths_cong)
  then show ?thesis
    using assms(1) c p by (simp add: ensure_context_def)
qed

lemma ensure_context_reuse:
  "ctx s = Some c \<Longrightarrow> ctx_headless s = Some headless \<Longrightarrow>
   ensure_context cfg e headless s = (Inr (Some c), s)"
  by (simp add: ensure_context_def ctx_matches_def)

lemma ensure_context_slow_path:
  assumes "\<not> ctx_matches headless s"
      and "ensure_context cfg e headless s = (Inr r, s')"
  shows "r = None \<and> ctx s' = None"
proof -
  obtain x1 s1 where c: "close_ctx e s = (x1, s1)" by (cases "close_ctx e s")
  obtain x2 s2 where p: "start_play e s1 = (x2, s2)" by (cases "start_play e s1")
  let ?s2' = "emit (Printed (launch_message headless)) s2"
  obtain x3 s3 where m: "makedirs_loop e (candidate_paths cfg s2) ?s2' = (x3, s3)"
    by (cases "makedirs_loop e (candidate_paths cfg s2) ?s2'")
  from assms c p m have x: "x1 = None" "x2 = None" "x3 = None" "r = None" "s' = s3"
    by (auto simp: ensure_context_def split: option.splits)
  have "ctx s1 = None" using close_ctx_ok[of e s] c x by simp
  then have "ctx s2 = None" using start_play_frame[of e s1] p by simp
  then have "ctx ?s2' = None" by (simp add: emit_def)
  then have "ctx s3 = None" using makedirs_loop_frame[of e "candidate_paths cfg s2" ?s2'] m by simp
  with x show ?thesis by simp
qed

lemma take_first_attempts:
  "k < length cs \<Longrightarrow> \<forall>p \<in> set (take k cs). P p \<Longrightarrow>
   take (Suc k) (takeWhile P cs @ take 1 (dropWhile P cs)) = take (Suc k) cs"
proof (induction cs arbitrary: k)
  case Nil
  then show ?case by simp
next
  case (Cons x xs)
  then show ?case by (cases k) auto
qed

lemmas run_defs = ensure_context_def ctx_matches_def close_ctx_def
  start_play_def candidate_paths_def add_candidate_def emit_def launch_message_def
  permission_message_def initial_state_def live_state_def default_config_def

subsection \<open>Claim C1: session reuse and recreation\<close>

text \<open>
  Claim C1 says that \<^verbatim>\<open>_ensure_context\<close> returns the live context when the
  requested mode is the mode it was created with, and otherwise tears the old context
  down and returns a freshly created one. The first half holds
  (\<open>ensure_context_reuse\<close>). The second does not: on every path that passes the
  test of line 208 the function closes the old context, creates the profile
  directories and ends, so it returns \<^verbatim>\<open>None\<close> and leaves \<^verbatim>\<open>_ctx\<close> unset
  (\<open>ensure_context_slow_path\<close>). The theorem runs the code on the claim's own
  scenario, \<^verbatim>\<open>acquire(true)\<close> then \<^verbatim>\<open>acquire(false)\<close> from the state after
  import, and on a state that holds a live headless context 7: both calls return
  \<^verbatim>\<open>None\<close>, no context is stored, and context 7 is closed.
\<close>

theorem ensure_context_returns_no_context:
  "acquire_twice default_config env_ok True False (initial_state default_config)
     = (Inr None, Inr None,
        \<lparr>play = True, ctx = None, ctx_headless = None,
         profile_dir_in_use = ''/root/.mos_profile'',
         trace = [EngineStart,
                  Printed ''[mos_agent] launching Playwright context (headless=True)'',
                  Makedirs ''/root/.mos_profile'', Makedirs ''/opt/mos_profile'',
                  Printed ''[mos_agent] launching Playwright context (headless=False)'',
                  Makedirs ''/root/.mos_profile'', Makedirs ''/opt/mos_profile'']\<rparr>)
   \<and> ensure_context default_config env_ok False (live_state default_config 7 True)
     = (Inr None,
        \<lparr>play = True, ctx = None, ctx_headless = Some True,
         profile_dir_in_use = ''/root/.mos_profile'',
         trace = [CtxClosed 7,
                  Printed ''[mos_agent] launching Playwright context (headless=False)'',
                  Makedirs ''/root/.mos_profile'', Makedirs ''/opt/mos_profile'']\<rparr>)"
  by (simp add: acquire_twice_def run_defs env_ok_def)

subsection \<open>Claim C2: failures of session acquisition\<close>

text \<open>
  Claim C2 says that session acquisition fails with a fatal error exactly when every
  profile-directory candidate is unwritable or the automation engine fails to start,
  and that the error reaches the caller. The code does not fail when every candidate
  is unwritable: the body of \<^verbatim>\<open>_ensure_context\<close> ends with the loop over the
  candidates, where \<^verbatim>\<open>launch_error\<close> and \<^verbatim>\<open>attempted_paths\<close> are assigned
  and never read, so nothing is raised after the loop. The theorem runs the code in
  a world where the engine starts and \<^verbatim>\<open>os.makedirs\<close> raises
  \<^verbatim>\<open>PermissionError\<close> on every path: each error is caught and printed, both
  candidates are attempted, and the call returns \<^verbatim>\<open>None\<close> instead of raising.
\<close>

theorem unwritable_candidates_raise_nothing:
  "fst (ensure_context default_config env_unwritable True (initial_state default_config))
     = Inr None
   \<and> attempted_dirs (trace (snd (ensure_context default_config env_unwritable True
         (initial_state default_config))))
     = [''/root/.mos_profile'', ''/opt/mos_profile'']"
  by (simp add: run_defs env_unwritable_def)

text \<open>
  The other cause of failure that the claim names does reach the caller: when the
  automation engine fails to start, the engine's error is the result of the call, the
  start is attempted exactly once in the call, and neither an engine nor a context is
  stored. The hypotheses say that the call reaches the start of the engine: no matching
  live context, no engine yet, and closing an old context does not raise.
\<close>

theorem engine_start_failure_is_raised:
  assumes "\<not> ctx_matches headless s"
      and "\<not> play s"
      and "start_raises e"
      and "\<forall>c. ctx s = Some c \<longrightarrow> \<not> close_raises e c"
  shows "fst (ensure_context cfg e headless s) = Inl EngineStartError
         \<and> ctx (snd (ensure_context cfg e headless s)) = None
         \<and> \<not> play (snd (ensure_context cfg e headless s))
         \<and> engine_starts (trace (snd (ensure_context cfg e headless s)))
             = Suc (engine_starts (trace s))"
proof -
  have c0: "fst (close_ctx e s) = None"
    using assms(4) by (rule close_ctx_no_raise)
  then obtain s1 where c: "close_ctx e s = (None, s1)"
    by (cases "close_ctx e s") simp
  have s1: "ctx s1 = None" "\<not> play s1" "engine_starts (trace s1) = engine_starts (trace s)"
    using close_ctx_ok[OF c0] close_ctx_frame[of e s] c assms(2) by simp_all
  have p: "start_play e s1 = (Some EngineStartError, emit EngineStart s1)"
    using s1(2) assms(3) by (rule start_play_raises)
  have r: "ensure_context cfg e headless s = (Inl EngineStartError, emit EngineStart s1)"
    using assms(1) c p by (simp add: ensure_context_def)
  show ?thesis
    using s1 by (simp add: r emit_def engine_starts_append)
qed

theorem engine_start_failure_is_raised_witness:
  "fst (ensure_context default_config env_no_engine True (initial_state default_config))
     = Inl EngineStartError
   \<and> engine_starts (trace (snd (ensure_context default_config env_no_engine True
         (initial_state default_config)))) = 1"
proof -
  have h1: "\<not> ctx_matches True (initial_state default_config)"
    by (simp add: ctx_matches_def initial_state_def)
  have h2: "\<not> play (initial_state default_config)"
    by (simp add: initial_state_def)
  have h3: "start_raises env_no_engine"
    by (simp add: env_no_engine_def)
  have h4: "\<forall>c. ctx (initial_state default_config) = Some c \<longrightarrow> \<not> close_raises env_no_engine c"
    by (simp add: initial_state_def)
  have t0: "engine_starts (trace (initial_state default_config)) = 0"
    by (simp add: initial_state_def)
  show ?thesis
    using engine_start_failure_is_raised[OF h1 h2 h3 h4, of default_config]
    by (simp only: t0) simp
qed

subsection \<open>Claim C3: the order of the profile-directory candidates\<close>

text \<open>
  Claim C3 as stated fails: the candidates are not tried primary first. After import
  \<^verbatim>\<open>_profile_dir_in_use\<close> is the fallback under the user's home, and the tuple of
  line 223 starts with it, so the fallback is created before the primary path.
\<close>

theorem fallback_is_tried_before_primary:
  "attempted_dirs (trace (snd (ensure_context default_config env_ok True
       (initial_state default_config))))
     = [FALLBACK_PROFILE_DIR default_config, PROFILE_DIR default_config]
   \<and> PROFILE_DIR default_config \<noteq> FALLBACK_PROFILE_DIR default_config"
  by (simp add: run_defs env_ok_def)

text \<open>
  Claim C3, amended: the candidates are the directory in use, then the primary
  configured path, then the fallback under the user's home, without empty paths and
  without repetitions, and they are attempted in that order; a permission failure on a
  candidate is not fatal, the next candidate is tried. Formally: when the first \<open>k\<close>
  candidates all raise \<^verbatim>\<open>PermissionError\<close>, the first \<open>k + 1\<close> directories the
  call attempts are the first \<open>k + 1\<close> candidates. The hypotheses say that the call
  reaches the loop over the candidates.
\<close>

theorem profile_candidates_in_order:
  assumes "\<not> ctx_matches headless s"
      and "\<forall>c. ctx s = Some c \<longrightarrow> \<not> close_raises e c"
      and "play s \<or> \<not> start_raises e"
      and "k < length (candidate_paths cfg s)"
      and "\<forall>p \<in> set (take k (candidate_paths cfg s)). makedirs e p = MkPermissionError"
  shows "candidate_paths cfg s =
           (if profile_dir_in_use s \<noteq> [] then [profile_dir_in_use s] else [])
           @ (if PROFILE_DIR cfg \<noteq> [] \<and> PROFILE_DIR cfg \<noteq> profile_dir_in_use s
              then [PROFILE_DIR cfg] else [])
           @ (if FALLBACK_PROFILE_DIR cfg \<noteq> []
                 \<and> FALLBACK_PROFILE_DIR cfg \<noteq> profile_dir_in_use s
                 \<and> FALLBACK_PROFILE_DIR cfg \<noteq> PROFILE_DIR cfg
              then [FALLBACK_PROFILE_DIR cfg] else [])
         \<and> take (Suc k) (new_attempts s (snd (ensure_context cfg e headless s)))
             = take (Suc k) (candidate_paths cfg s)"
proof -
  let ?cs = "candidate_paths cfg s"
  let ?ok = "\<lambda>p. makedirs e p \<noteq> MkOSError"
  let ?s2 = "snd (start_play e (snd (close_ctx e s)))"
  let ?s2' = "emit (Printed (launch_message headless)) ?s2"
  have c0: "fst (close_ctx e s) = None"
    using assms(2) by (rule close_ctx_no_raise)
  have p0: "fst (start_play e (snd (close_ctx e s))) = None"
    using assms(3) close_ctx_frame[of e s] by (intro start_play_no_raise) simp
  have "snd (ensure_context cfg e headless s) = snd (makedirs_loop e ?cs ?s2')"
    by (simp add: ensure_context_slow[OF assms(1) c0 p0] split: prod.splits option.splits)
  moreover have "attempted_dirs (trace ?s2') = attempted_dirs (trace s)"
    using close_ctx_frame[of e s] start_play_frame[of e "snd (close_ctx e s)"]
    by (simp add: emit_def attempted_dirs_append)
  ultimately have new: "new_attempts s (snd (ensure_context cfg e headless s))
      = takeWhile ?ok ?cs @ take 1 (dropWhile ?ok ?cs)"
    by (simp add: new_attempts_def makedirs_loop_attempts)
  have pre: "\<forall>p \<in> set (take k ?cs). ?ok p"
    using assms(5) by simp
  have "take (Suc k) (new_attempts s (snd (ensure_context cfg e headless s)))
          = take (Suc k) ?cs"
    unfolding new using assms(4) pre by (rule take_first_attempts)
  then show ?thesis
    using candidate_paths_explicit[of cfg s] by (rule conjI[rotated])
qed

theorem profile_candidates_in_order_witness:
  "candidate_paths default_config (initial_state default_config)
     = [''/root/.mos_profile'', ''/opt/mos_profile'']
   \<and> take 2 (new_attempts (initial_state default_config)
        (snd (ensure_context default_config env_fallback_denied True
           (initial_state default_config))))
     = [''/root/.mos_profile'', ''/opt/mos_profile'']"
proof -
  have cs: "candidate_paths default_config (initial_state default_config)
              = [''/root/.mos_profile'', ''/opt/mos_profile'']"
    by (simp add: candidate_paths_def add_candidate_def default_config_def initial_state_def)
  have h1: "\<not> ctx_matches True (initial_state default_config)"
    by (simp add: ctx_matches_def initial_state_def)
  have h2: "\<forall>c. ctx (initial_state default_config) = Some c
              \<longrightarrow> \<not> close_raises env_fallback_denied c"
    by (simp add: initial_state_def)
  have h3: "play (initial_state default_config) \<or> \<not> start_raises env_fallback_denied"
    by (simp add: env_fallback_denied_def)
  have h4: "1 < length (candidate_paths default_config (initial_state default_config))"
    by (simp add: cs)
  have h5: "\<forall>p \<in> set (take 1 (candidate_paths default_config (initial_state default_config))).
              makedirs env_fallback_denied p = MkPermissionError"
    by (simp add: cs env_fallback_denied_def)
  have "take (Suc 1) (new_attempts (initial_state default_config)
          (snd (ensure_context default_config env_fallback_denied True
             (initial_state default_config))))
        = take (Suc 1) (candidate_paths default_config (initial_state default_config))"
    using profile_candidates_in_order[OF h1 h2 h3 h4 h5] by (rule conjunct2)
  then show ?thesis
    by (simp add: cs numeral_2_eq_2)
qed

section \<open>Properties of the search endpoint and of request validation\<close>

subsection \<open>Claim C6: the last search is retained\<close>

text \<open>
  Claim C6: after every successful call of \<^verbatim>\<open>search\<close>, the process-wide
  \<^verbatim>\<open>last_search_data\<close> equals the aggregate response the call returned. This
  holds for every \<^verbatim>\<open>_execute_queries\<close>, whatever it does to the state.
\<close>

theorem search_retains_last_result:
  "search exec req s = (Inr result, s') \<Longrightarrow> last_search_data s' = Some result"
  by (auto simp: search_def split: prod.splits sum.splits)

lemma search_failure_keeps_state:
  "exec (queries req) (max_per_query req) s = (Inl err, s1) \<Longrightarrow> search exec req s = (Inl err, s1)"
  by (simp add: search_def)

theorem search_retains_last_result_witness:
  "search echo_queries \<lparr>queries = [''ORA-00600'', ''ORA-01555''], max_per_query = 1\<rparr> app0
     = (Inr [''ORA-00600''], app0\<lparr>last_search_data := Some [''ORA-00600'']\<rparr>)
   \<and> last_search_data (app0\<lparr>last_search_data := Some [''ORA-00600'']\<rparr>)
     = Some [''ORA-00600'']"
proof -
  have run: "search echo_queries \<lparr>queries = [''ORA-00600'', ''ORA-01555''], max_per_query = 1\<rparr> app0
     = (Inr [''ORA-00600''], app0\<lparr>last_search_data := Some [''ORA-00600'']\<rparr>)"
    by (simp add: search_def echo_queries_def)
  show ?thesis
    using run search_retains_last_result[OF run] by simp
qed

subsection \<open>Claim C7: requests are validated, not clamped\<close>

lemma validate_SearchRequest_iff:
  "validate_SearchRequest b = Inr req \<longleftrightarrow>
     (\<exists>qs. body_queries b = Some qs \<and> 1 \<le> length qs \<and> length qs \<le> 25
        \<and> 1 \<le> with_default 5 (body_max_per_query b)
        \<and> with_default 5 (body_max_per_query b) \<le> 20
        \<and> req = \<lparr>queries = qs, max_per_query = with_default 5 (body_max_per_query b)\<rparr>)"
  by (cases "body_queries b")
     (auto simp: validate_SearchRequest_def check_bounds_def RESULTS_PER_QUERY_LIMIT_def Let_def
           split: list.splits if_splits)

lemma validate_LogSearchRequest_iff:
  "validate_LogSearchRequest b = Inr req \<longleftrightarrow>
     (\<exists>txt. body_log_text b = Some txt \<and> txt \<noteq> []
        \<and> 1 \<le> with_default 5 (body_max_queries b)
        \<and> with_default 5 (body_max_queries b) \<le> 25
        \<and> 1 \<le> with_default 5 (body_log_max_per_query b)
        \<and> with_default 5 (body_log_max_per_query b) \<le> 20
        \<and> req = \<lparr>log_text = txt, max_queries = with_default 5 (body_max_queries b),
                  log_max_per_query = with_default 5 (body_log_max_per_query b)\<rparr>)"
  by (cases "body_log_text b")
     (auto simp: validate_LogSearchRequest_def check_bounds_def RESULTS_PER_QUERY_LIMIT_def Let_def
           Suc_le_eq split: list.splits if_splits)

lemma validate_SearchRequest_total:
  "(\<exists>req. validate_SearchRequest b = Inr req) \<or> (\<exists>errs. validate_SearchRequest b = Inl (ValidationError errs))"
  by (auto simp: validate_SearchRequest_def Let_def split: list.splits option.splits)

lemma validate_LogSearchRequest_total:
  "(\<exists>req. validate_LogSearchRequest b = Inr req) \<or> (\<exists>errs. validate_LogSearchRequest b = Inl (ValidationError errs))"
  by (auto simp: validate_LogSearchRequest_def Let_def split: list.splits option.splits)

lemma post_search_rejects:
  assumes "\<forall>req. validate_SearchRequest b \<noteq> Inr req"
  shows "\<exists>errs. post_search exec b s = (Inl (ValidationError errs), s)"
  using assms validate_SearchRequest_total[of b] by (auto simp: post_search_def)

lemma post_search_log_rejects:
  assumes "\<forall>req. validate_LogSearchRequest b \<noteq> Inr req"
  shows "\<exists>errs. post_search_log handler b s = (Inl (ValidationError errs), s)"
  using assms validate_LogSearchRequest_total[of b] by (auto simp: post_search_log_def)

text \<open>
  Claim C7: every inbound request is validated against the stated bounds before it
  reaches the core. A search body is accepted exactly when it has 1 to 25 queries and
  a \<^verbatim>\<open>max_per_query\<close> (5 when left out) within 1..20; a log-search body exactly
  when its \<^verbatim>\<open>log_text\<close> is non-empty, \<^verbatim>\<open>max_queries\<close> (default 5) is within
  1..25 and \<^verbatim>\<open>max_per_query\<close> (default 5) within 1..20. An accepted request
  carries the values as they were given and is handed to the handler; a body that is
  not accepted is answered with a validation error with the state untouched, whatever
  the handler would do, so the core is never invoked and no value is clamped.
\<close>

theorem requests_validated_not_clamped:
  "(validate_SearchRequest b = Inr req \<longleftrightarrow>
      (\<exists>qs. body_queries b = Some qs \<and> 1 \<le> length qs \<and> length qs \<le> 25
         \<and> 1 \<le> with_default 5 (body_max_per_query b)
         \<and> with_default 5 (body_max_per_query b) \<le> 20
         \<and> req = \<lparr>queries = qs, max_per_query = with_default 5 (body_max_per_query b)\<rparr>))
   \<and> (validate_SearchRequest b = Inr req \<longrightarrow> post_search exec b s = search exec req s)
   \<and> ((\<forall>r. validate_SearchRequest b \<noteq> Inr r)
        \<longrightarrow> (\<exists>errs. post_search exec b s = (Inl (ValidationError errs), s)))
   \<and> (validate_LogSearchRequest lb = Inr lreq \<longleftrightarrow>
        (\<exists>txt. body_log_text lb = Some txt \<and> txt \<noteq> []
           \<and> 1 \<le> with_default 5 (body_max_queries lb)
           \<and> with_default 5 (body_max_queries lb) \<le> 25
           \<and> 1 \<le> with_default 5 (body_log_max_per_query lb)
           \<and> with_default 5 (body_log_max_per_query lb) \<le> 20
           \<and> lreq = \<lparr>log_text = txt, max_queries = with_default 5 (body_max_queries lb),
                      log_max_per_query = with_default 5 (body_log_max_per_query lb)\<rparr>))
   \<and> (validate_LogSearchRequest lb = Inr lreq
        \<longrightarrow> post_search_log handler lb t = handler lreq t)
   \<and> ((\<forall>r. validate_LogSearchRequest lb \<noteq> Inr r)
        \<longrightarrow> (\<exists>errs. post_search_log handler lb t = (Inl (ValidationError errs), t)))"
proof (intro conjI impI)
  show "validate_SearchRequest b = Inr req \<longleftrightarrow>
      (\<exists>qs. body_queries b = Some qs \<and> 1 \<le> length qs \<and> length qs \<le> 25
         \<and> 1 \<le> with_default 5 (body_max_per_query b)
         \<and> with_default 5 (body_max_per_query b) \<le> 20
         \<and> req = \<lparr>queries = qs, max_per_query = with_default 5 (body_max_per_query b)\<rparr>)"
    by (rule validate_SearchRequest_iff)
  show "post_search exec b s = search exec req s" if "validate_SearchRequest b = Inr req"
    using that by (simp add: post_search_def)
  show "\<exists>errs. post_search exec b s = (Inl (ValidationError errs), s)"
    if "\<forall>r. validate_SearchRequest b \<noteq> Inr r"
    using that by (rule post_search_rejects)
  show "validate_LogSearchRequest lb = Inr lreq \<longleftrightarrow>
        (\<exists>txt. body_log_text lb = Some txt \<and> txt \<noteq> []
           \<and> 1 \<le> with_default 5 (body_max_queries lb)
           \<and> with_default 5 (body_max_queries lb) \<le> 25
           \<and> 1 \<le> with_default 5 (body_log_max_per_query lb)
           \<and> with_default 5 (body_log_max_per_query lb) \<le> 20
           \<and> lreq = \<lparr>log_text = txt, max_queries = with_default 5 (body_max_queries lb),
                      log_max_per_query = with_default 5 (body_log_max_per_query lb)\<rparr>)"
    by (rule validate_LogSearchRequest_iff)
  show "post_search_log handler lb t = handler lreq t" if "validate_LogSearchRequest lb = Inr lreq"
    using that by (simp add: post_search_log_def)
  show "\<exists>errs. post_search_log handler lb t = (Inl (ValidationError errs), t)"
    if "\<forall>r. validate_LogSearchRequest lb \<noteq> Inr r"
    using that by (rule post_search_log_rejects)
qed

theorem requests_validated_not_clamped_witness:
  "validate_SearchRequest widest_search
     = Inr \<lparr>queries = replicate 25 ''ORA-00600'', max_per_query = 20\<rparr>
   \<and> (\<exists>errs. post_search echo_queries too_many_results app0 = (Inl (ValidationError errs), app0))
   \<and> (\<exists>errs. post_search_log no_handler empty_log 0 = (Inl (ValidationError errs), 0))
   \<and> post_search_log no_handler plain_log 0 = (Inr [''ORA-00600: internal error code''], 1)"
proof -
  note inst = requests_validated_not_clamped[where exec = echo_queries and s = app0
      and handler = no_handler and t = 0]
  have a: "validate_SearchRequest widest_search
     = Inr \<lparr>queries = replicate 25 ''ORA-00600'', max_per_query = 20\<rparr>"
    using inst[of widest_search "\<lparr>queries = replicate 25 ''ORA-00600'', max_per_query = 20\<rparr>"]
    by (simp add: widest_search_def with_default_def)
  have r: "\<forall>r. validate_SearchRequest too_many_results \<noteq> Inr r"
    by (simp add: validate_SearchRequest_iff too_many_results_def with_default_def)
  have b: "\<exists>errs. post_search echo_queries too_many_results app0 = (Inl (ValidationError errs), app0)"
    using inst[of too_many_results] r by blast
  have l: "\<forall>r. validate_LogSearchRequest empty_log \<noteq> Inr r"
    by (simp add: validate_LogSearchRequest_iff empty_log_def)
  have c: "\<exists>errs. post_search_log no_handler empty_log 0 = (Inl (ValidationError errs), 0)"
    using inst[where lb = empty_log] l by blast
  have v: "validate_LogSearchRequest plain_log
      = Inr \<lparr>log_text = ''ORA-00600: internal error code'', max_queries = 5, log_max_per_query = 5\<rparr>"
    by (simp add: validate_LogSearchRequest_iff plain_log_def with_default_def)
  have "validate_LogSearchRequest plain_log
          = Inr \<lparr>log_text = ''ORA-00600: internal error code'', max_queries = 5,
                  log_max_per_query = 5\<rparr>
        \<longrightarrow> post_search_log no_handler plain_log 0
          = no_handler \<lparr>log_text = ''ORA-00600: internal error code'', max_queries = 5,
                  log_max_per_query = 5\<rparr> 0"
    using inst[where lb = plain_log] by blast
  with v have d: "post_search_log no_handler plain_log 0
      = (Inr [''ORA-00600: internal error code''], 1)"
    by (simp add: no_handler_def)
  from a b c d show ?thesis by blast
qed

section \<open>Properties of the tool schema\<close>

lemma tool_param_search_mos:
  "tool_param ''search_mos'' ''queries'' ''minItems'' = Some (JInt 1)"
  "tool_param ''search_mos'' ''queries'' ''maxItems'' = Some (JInt 5)"
  "tool_param ''search_mos'' ''max_per_query'' ''minimum'' = Some (JInt 1)"
  "tool_param ''search_mos'' ''max_per_query'' ''maximum'' = Some (JInt 20)"
  by (simp_all add: tool_param_def find_tool_def LLM_TOOLS_def RESULTS_PER_QUERY_LIMIT_def)

lemma within_schema_search_mos:
  "within_schema ''search_mos'' qs mpq
     \<longleftrightarrow> 1 \<le> length qs \<and> length qs \<le> 5 \<and> 1 \<le> mpq \<and> mpq \<le> 20"
  unfolding within_schema_def tool_param_search_mos by auto

text \<open>
  Claim C10: the schema of the tool \<^verbatim>\<open>search_mos\<close> has \<^verbatim>\<open>minItems\<close> 1 and
  \<^verbatim>\<open>maxItems\<close> 5 for \<^verbatim>\<open>queries\<close> and \<^verbatim>\<open>maximum\<close> 20 for
  \<^verbatim>\<open>max_per_query\<close>, so it admits 1 to 5 queries per call. This is strictly
  tighter than the HTTP boundary: every call the schema admits is a valid
  \<^verbatim>\<open>SearchRequest\<close>, while a request with six queries is valid at the HTTP
  boundary and not admitted by the schema.
\<close>

theorem tool_schema_tighter_than_http:
  "tool_param ''search_mos'' ''queries'' ''minItems'' = Some (JInt 1)
   \<and> tool_param ''search_mos'' ''queries'' ''maxItems'' = Some (JInt 5)
   \<and> tool_param ''search_mos'' ''max_per_query'' ''maximum'' = Some (JInt 20)
   \<and> (within_schema ''search_mos'' qs mpq
        \<longleftrightarrow> 1 \<le> length qs \<and> length qs \<le> 5 \<and> 1 \<le> mpq \<and> mpq \<le> 20)
   \<and> (within_schema ''search_mos'' qs mpq \<longrightarrow>
        validate_SearchRequest \<lparr>body_queries = Some qs, body_max_per_query = Some mpq\<rparr>
          = Inr \<lparr>queries = qs, max_per_query = mpq\<rparr>)
   \<and> validate_SearchRequest six_queries
        = Inr \<lparr>queries = replicate 6 ''ORA-00600'', max_per_query = 5\<rparr>
   \<and> \<not> within_schema ''search_mos'' (replicate 6 ''ORA-00600'') 5"
proof -
  have "validate_SearchRequest \<lparr>body_queries = Some qs, body_max_per_query = Some mpq\<rparr>
          = Inr \<lparr>queries = qs, max_per_query = mpq\<rparr>"
    if "within_schema ''search_mos'' qs mpq"
    using that by (simp add: within_schema_search_mos validate_SearchRequest_iff with_default_def)
  moreover have "validate_SearchRequest six_queries
        = Inr \<lparr>queries = replicate 6 ''ORA-00600'', max_per_query = 5\<rparr>"
    by (simp add: validate_SearchRequest_iff six_queries_def with_default_def)
  moreover have "\<not> within_schema ''search_mos'' (replicate 6 ''ORA-00600'') 5"
    by (simp add: within_schema_search_mos)
  ultimately show ?thesis
    using tool_param_search_mos within_schema_search_mos[of qs mpq] by blast
qed

theorem tool_schema_tighter_than_http_witness:
  "within_schema ''search_mos'' [''ORA-00600'', ''ORA-01555''] 20
   \<and> validate_SearchRequest
        \<lparr>body_queries = Some [''ORA-00600'', ''ORA-01555''], body_max_per_query = Some 20\<rparr>
       = Inr \<lparr>queries = [''ORA-00600'', ''ORA-01555''], max_per_query = 20\<rparr>"
proof -
  note inst = tool_schema_tighter_than_http[of "[''ORA-00600'', ''ORA-01555'']" 20]
  have w: "within_schema ''search_mos'' [''ORA-00600'', ''ORA-01555''] 20"
    using inst by simp
  with inst show ?thesis by blast
qed

section \<open>Properties of the locator\<close>

lemma locate_from_result:
  "fst (locate_from page target chain tried) =
     (case List.map_filter page chain of
        [] \<Rightarrow> Inl (ElementNotFound target (length tried + length chain))
      | el # _ \<Rightarrow> Inr el)"
  by (induction chain arbitrary: tried)
     (auto simp: List.map_filter_simps split: option.splits list.splits)

lemma locate_from_tried:
  "snd (locate_from page target chain tried) =
     tried @ takeWhile (\<lambda>sel. page sel = None) chain
           @ take 1 (dropWhile (\<lambda>sel. page sel = None) chain)"
  by (induction chain arbitrary: tried) (auto split: option.splits)

lemma tried_all_when_none_resolves:
  "\<forall>sel \<in> set chain. page sel = None \<Longrightarrow>
   takeWhile (\<lambda>sel. page sel = None) chain
     @ take 1 (dropWhile (\<lambda>sel. page sel = None) chain) = chain"
  by (induction chain) auto

text \<open>
  Claim C8: selector-chain resolution is order-preserving and first-success. The
  result is the element of the first selector of the chain that resolves; the
  selectors attempted are those before it and itself, in the order of the chain, and
  none after it (for a chain \<open>[A, B, C]\<close> where \<open>A\<close> fails and \<open>B\<close> succeeds,
  exactly \<open>A\<close> and \<open>B\<close> are attempted); when no selector resolves, every
  selector has been attempted and the result is the typed failure
  \<open>ElementNotFound\<close> with the target and the number of candidates.
\<close>

theorem locate_first_success_in_order:
  "fst (locate page target chain) =
     (case List.map_filter page chain of
        [] \<Rightarrow> Inl (ElementNotFound target (length chain))
      | el # _ \<Rightarrow> Inr el)
   \<and> snd (locate page target chain) =
       takeWhile (\<lambda>sel. page sel = None) chain
       @ take 1 (dropWhile (\<lambda>sel. page sel = None) chain)
   \<and> (page A = None \<and> page B = Some el
        \<longrightarrow> locate page target [A, B, C] = (Inr el, [A, B]))
   \<and> ((\<forall>sel \<in> set chain. page sel = None)
        \<longrightarrow> locate page target chain = (Inl (ElementNotFound target (length chain)), chain))"
proof (intro conjI impI)
  show "fst (locate page target chain) =
     (case List.map_filter page chain of
        [] \<Rightarrow> Inl (ElementNotFound target (length chain))
      | el # _ \<Rightarrow> Inr el)"
    by (simp add: locate_def locate_from_result split: list.splits)
  show tr: "snd (locate page target chain) =
       takeWhile (\<lambda>sel. page sel = None) chain
       @ take 1 (dropWhile (\<lambda>sel. page sel = None) chain)"
    by (simp add: locate_def locate_from_tried)
  show "locate page target [A, B, C] = (Inr el, [A, B])"
    if "page A = None \<and> page B = Some el"
    using that by (simp add: locate_def)
  show "locate page target chain = (Inl (ElementNotFound target (length chain)), chain)"
    if h: "\<forall>sel \<in> set chain. page sel = None"
  proof -
    have "List.map_filter page chain = []"
      using h by (induction chain) (simp_all add: List.map_filter_simps)
    then have "fst (locate page target chain) = Inl (ElementNotFound target (length chain))"
      by (simp add: locate_def locate_from_result)
    moreover have "snd (locate page target chain) = chain"
      unfolding tr using h by (rule tried_all_when_none_resolves)
    ultimately show ?thesis
      by (simp add: prod_eq_iff)
  qed
qed

theorem locate_first_success_in_order_witness:
  "locate aria_only_page ''global search box'' (take 3 SEARCH_BOX_SELECTORS)
     = (Inr 1, take 2 SEARCH_BOX_SELECTORS)
   \<and> locate blank_page ''global search box'' SEARCH_BOX_SELECTORS
     = (Inl (ElementNotFound ''global search box'' 10), SEARCH_BOX_SELECTORS)"
proof -
  have a: "aria_only_page (SEARCH_BOX_SELECTORS ! 0) = None
           \<and> aria_only_page (SEARCH_BOX_SELECTORS ! 1) = Some 1"
    by (simp add: aria_only_page_def SEARCH_BOX_SELECTORS_def GLOBAL_SEARCH_ARIA_def bs_def)
  have t3: "take 3 SEARCH_BOX_SELECTORS
      = [SEARCH_BOX_SELECTORS ! 0, SEARCH_BOX_SELECTORS ! 1, SEARCH_BOX_SELECTORS ! 2]"
    by (simp add: SEARCH_BOX_SELECTORS_def)
  have t2: "take 2 SEARCH_BOX_SELECTORS = [SEARCH_BOX_SELECTORS ! 0, SEARCH_BOX_SELECTORS ! 1]"
    by (simp add: SEARCH_BOX_SELECTORS_def)
  have l: "length SEARCH_BOX_SELECTORS = 10"
    by (simp add: SEARCH_BOX_SELECTORS_def)
  have b: "\<forall>sel \<in> set SEARCH_BOX_SELECTORS. blank_page sel = None"
    by (simp add: blank_page_def)
  have "locate aria_only_page ''global search box''
          [SEARCH_BOX_SELECTORS ! 0, SEARCH_BOX_SELECTORS ! 1, SEARCH_BOX_SELECTORS ! 2]
        = (Inr 1, [SEARCH_BOX_SELECTORS ! 0, SEARCH_BOX_SELECTORS ! 1])"
    using locate_first_success_in_order[of aria_only_page _ _ "SEARCH_BOX_SELECTORS ! 0"
        "SEARCH_BOX_SELECTORS ! 1" 1] a by blast
  moreover have "locate blank_page ''global search box'' SEARCH_BOX_SELECTORS
     = (Inl (ElementNotFound ''global search box'' (length SEARCH_BOX_SELECTORS)),
        SEARCH_BOX_SELECTORS)"
    using locate_first_success_in_order[of blank_page _ SEARCH_BOX_SELECTORS] b by blast
  ultimately show ?thesis
    by (simp only: t3 t2 l) 
qed

section \<open>Properties of the search execution pipeline\<close>

lemma extract_results_bound:
  "length acc \<le> cap \<Longrightarrow> length (extract_results cap nodes acc) \<le> cap"
  by (induction cap nodes acc rule: extract_results.induct) (auto split: option.splits)

lemma query_results_bound:
  "length (query_results portal mpq i q) \<le> effective_cap mpq"
  by (simp add: query_results_def extract_results_bound split: query_outcome.splits)

text \<open>
  Claim C4: the number of results of a single query never exceeds the hard ceiling
  \<^verbatim>\<open>RESULTS_PER_QUERY_LIMIT\<close> = 20, whatever the caller requested, and for a
  requested \<^verbatim>\<open>max_per_query\<close> of at most 20 it never exceeds
  \<^verbatim>\<open>max_per_query\<close>. The requested value is a count, so it is not negative; the
  HTTP boundary lets only 1..20 through.
\<close>

theorem per_query_results_capped:
  "int (length (query_results portal mpq i q)) \<le> RESULTS_PER_QUERY_LIMIT
   \<and> RESULTS_PER_QUERY_LIMIT = 20
   \<and> (0 \<le> mpq \<and> mpq \<le> 20
        \<longrightarrow> int (length (query_results portal mpq i q)) \<le> mpq)"
  using query_results_bound[of portal mpq i q]
  by (auto simp: effective_cap_def RESULTS_PER_QUERY_LIMIT_def)

lemmas demo_defs = query_results_def demo_portal_def effective_cap_def
  RESULTS_PER_QUERY_LIMIT_def parse_node_def note_node_def broken_node_def result_key_def

theorem per_query_results_capped_witness:
  "length (query_results demo_portal 2 0 ''ORA-00600'') = 2
   \<and> int (length (query_results demo_portal 2 0 ''ORA-00600'')) \<le> 2
   \<and> int (length (query_results demo_portal 1000 0 ''ORA-00600'')) \<le> 20"
proof -
  have "length (query_results demo_portal 2 0 ''ORA-00600'') = 2"
    by (simp add: query_results_def demo_portal_def effective_cap_def
          RESULTS_PER_QUERY_LIMIT_def parse_node_def note_node_def broken_node_def
          result_key_def numeral_2_eq_2)
  then show ?thesis
    using per_query_results_capped[of demo_portal 2 0 "''ORA-00600''"]
      per_query_results_capped[of demo_portal 1000 0 "''ORA-00600''"]
    by simp
qed

lemma execute_from_concat:
  assumes "\<forall>k < length qs. \<forall>err. portal (i + k) (qs ! k) = QueryFailure err \<longrightarrow> \<not> fatal err"
  shows "execute_from portal m i qs acc
           = Inr (acc @ concat (map (\<lambda>(k, q). query_results portal m k q) (enumerate i qs)))"
  using assms
proof (induction qs arbitrary: i acc)
  case Nil
  then show ?case by simp
next
  case (Cons q qs)
  have hd: "\<forall>err. portal i q = QueryFailure err \<longrightarrow> \<not> fatal err"
    using Cons.prems by force
  have tl: "\<forall>k < length qs. \<forall>err. portal (Suc i + k) (qs ! k) = QueryFailure err \<longrightarrow> \<not> fatal err"
    using Cons.prems by force
  show ?case
    using hd Cons.IH[OF tl] by (cases "portal i q") (simp_all add: query_results_def)
qed

text \<open>
  Claim C5: in a batch of queries, a query that fails (element not found, navigation
  timeout) is recorded as zero results and the remaining queries are still executed.
  When no query meets a session or authentication failure, the batch returns a
  response; the response is the results of the queries in submission order, each
  capped on its own; its length is the sum of the queries' result counts; and a failed
  query contributes nothing.
\<close>

theorem batch_tolerates_query_failures:
  assumes "\<forall>k < length qs. \<forall>err. portal k (qs ! k) = QueryFailure err \<longrightarrow> \<not> fatal err"
  shows "execute_queries portal qs m
           = Inr (concat (map (\<lambda>(k, q). query_results portal m k q) (enumerate 0 qs)))
         \<and> length (concat (map (\<lambda>(k, q). query_results portal m k q) (enumerate 0 qs)))
           = sum_list (map (\<lambda>(k, q). length (query_results portal m k q)) (enumerate 0 qs))
         \<and> (\<forall>k < length qs. \<forall>err. portal k (qs ! k) = QueryFailure err
              \<longrightarrow> query_results portal m k (qs ! k) = [])"
proof (intro conjI)
  show "execute_queries portal qs m
           = Inr (concat (map (\<lambda>(k, q). query_results portal m k q) (enumerate 0 qs)))"
    using assms execute_from_concat[of qs portal 0 m "[]"]
    by (simp add: execute_queries_def)
  show "length (concat (map (\<lambda>(k, q). query_results portal m k q) (enumerate 0 qs)))
           = sum_list (map (\<lambda>(k, q). length (query_results portal m k q)) (enumerate 0 qs))"
    by (simp add: length_concat comp_def case_prod_unfold)
  show "\<forall>k < length qs. \<forall>err. portal k (qs ! k) = QueryFailure err
              \<longrightarrow> query_results portal m k (qs ! k) = []"
    by (simp add: query_results_def)
qed

theorem batch_tolerates_query_failures_witness:
  "execute_queries demo_portal [''ORA-00600'', ''ORA-01555'', ''ORA-04031''] 2
     = Inr (query_results demo_portal 2 0 ''ORA-00600''
            @ query_results demo_portal 2 2 ''ORA-04031'')
   \<and> query_results demo_portal 2 1 ''ORA-01555'' = []
   \<and> length (query_results demo_portal 2 0 ''ORA-00600''
            @ query_results demo_portal 2 2 ''ORA-04031'') = 4"
proof -
  let ?qs = "[''ORA-00600'', ''ORA-01555'', ''ORA-04031'']"
  have h: "\<forall>k < length ?qs. \<forall>err. demo_portal k (?qs ! k) = QueryFailure err \<longrightarrow> \<not> fatal err"
    by (simp add: demo_portal_def fatal_def)
  have e: "enumerate 0 ?qs = [(0, ''ORA-00600''), (1, ''ORA-01555''), (2, ''ORA-04031'')]"
    by (simp add: enumerate_eq_zip upt_rec)
  have f: "query_results demo_portal 2 1 ''ORA-01555'' = []"
    by (simp add: query_results_def demo_portal_def)
  have l0: "length (query_results demo_portal 2 0 ''ORA-00600'') = 2"
    by (simp add: demo_defs numeral_2_eq_2)
  have l2: "length (query_results demo_portal 2 2 ''ORA-04031'') = 2"
    by (simp add: demo_defs numeral_2_eq_2)
  have "execute_queries demo_portal ?qs 2
          = Inr (concat (map (\<lambda>(k, q). query_results demo_portal 2 k q) (enumerate 0 ?qs)))"
    using batch_tolerates_query_failures[where portal = demo_portal and qs = ?qs and m = 2, OF h]
    by (rule conjunct1)
  then show ?thesis
    using f l0 l2 by (simp add: e numeral_2_eq_2)
qed

section \<open>Properties of the tool-dispatch loop\<close>

lemma dispatch_loop_rounds:
  "rounds (dispatch_loop llm run_tool left used partial conv w) \<le> used + left"
proof (induction left arbitrary: used partial conv w)
  case 0
  show ?case by simp
next
  case (Suc left)
  let ?resp = "llm used conv"
  let ?conv1 = "conv @ [\<lparr>role = Assistant, content = response_content ?resp,
                          tool_call_id = None\<rparr>]"
  show ?case
  proof (cases "tool_calls ?resp = []")
    case True
    then show ?thesis by (simp add: Let_def)
  next
    case False
    obtain msgs w1 where e: "execute_tools run_tool (tool_calls ?resp) w = (msgs, w1)"
      by (cases "execute_tools run_tool (tool_calls ?resp) w")
    have "rounds (dispatch_loop llm run_tool left (Suc used) (response_content ?resp)
             (?conv1 @ msgs) w1) \<le> Suc used + left"
      by (rule Suc.IH)
    then show ?thesis
      using False e by (simp add: Let_def)
  qed
qed

lemma dispatch_loop_flag:
  "(final_state (dispatch_loop llm run_tool left used partial conv w) = Exhausted)
     = cap_hit (dispatch_loop llm run_tool left used partial conv w)"
  by (induction left arbitrary: used partial conv w)
     (auto simp: Let_def split: prod.splits)

lemma dispatch_loop_always_tools:
  "\<forall>i c. tool_calls (llm i c) \<noteq> [] \<Longrightarrow>
   final_state (dispatch_loop llm run_tool left used partial conv w) = Exhausted
   \<and> rounds (dispatch_loop llm run_tool left used partial conv w) = used + left"
  by (induction left arbitrary: used partial conv w)
     (auto simp: Let_def split: prod.splits)

text \<open>
  Claim C9: the tool-dispatch loop always terminates. \<open>respond\<close> is a total
  function, so it returns for every LLM and every tool; it makes at most
  \<open>round_cap\<close> rounds and ends exhausted exactly when the cap-hit flag is set. When
  the first response has no tool call (and the cap allows a round at all), it ends
  after exactly one round, answered, with that response as its reply. When the LLM
  requests a tool call on every turn, it ends exhausted with the flag set after
  exactly \<open>round_cap\<close> rounds.
\<close>

theorem respond_terminates_within_cap:
  "rounds (respond round_cap llm run_tool conv w) \<le> round_cap
   \<and> ((final_state (respond round_cap llm run_tool conv w) = Exhausted)
        = cap_hit (respond round_cap llm run_tool conv w))
   \<and> (0 < round_cap \<and> tool_calls (llm 0 conv) = []
        \<longrightarrow> final_state (respond round_cap llm run_tool conv w) = Answered
          \<and> rounds (respond round_cap llm run_tool conv w) = 1
          \<and> \<not> cap_hit (respond round_cap llm run_tool conv w)
          \<and> reply (respond round_cap llm run_tool conv w) = response_content (llm 0 conv))
   \<and> ((\<forall>i c. tool_calls (llm i c) \<noteq> [])
        \<longrightarrow> final_state (respond round_cap llm run_tool conv w) = Exhausted
          \<and> cap_hit (respond round_cap llm run_tool conv w)
          \<and> rounds (respond round_cap llm run_tool conv w) = round_cap)"
proof (intro conjI impI)
  show "rounds (respond round_cap llm run_tool conv w) \<le> round_cap"
    using dispatch_loop_rounds[of llm run_tool round_cap 0 "[]" conv w]
    by (simp add: respond_def)
  show flag: "(final_state (respond round_cap llm run_tool conv w) = Exhausted)
        = cap_hit (respond round_cap llm run_tool conv w)"
    by (simp add: respond_def dispatch_loop_flag)
  assume first: "0 < round_cap \<and> tool_calls (llm 0 conv) = []"
  then obtain n where n: "round_cap = Suc n"
    by (cases round_cap) auto
  show "final_state (respond round_cap llm run_tool conv w) = Answered"
    and "rounds (respond round_cap llm run_tool conv w) = 1"
    and "\<not> cap_hit (respond round_cap llm run_tool conv w)"
    and "reply (respond round_cap llm run_tool conv w) = response_content (llm 0 conv)"
    using first by (simp_all add: respond_def n Let_def)
next
  assume always: "\<forall>i c. tool_calls (llm i c) \<noteq> []"
  show ex: "final_state (respond round_cap llm run_tool conv w) = Exhausted"
    and "rounds (respond round_cap llm run_tool conv w) = round_cap"
    using dispatch_loop_always_tools[OF always, of run_tool round_cap 0 "[]" conv w]
    by (simp_all add: respond_def)
  then show "cap_hit (respond round_cap llm run_tool conv w)"
    using dispatch_loop_flag[of llm run_tool round_cap 0 "[]" conv w]
    by (simp add: respond_def)
qed

theorem respond_terminates_within_cap_witness:
  "final_state (respond 3 direct_llm count_tool ask 0) = Answered
   \<and> rounds (respond 3 direct_llm count_tool ask 0) = 1
   \<and> final_state (respond 3 greedy_llm count_tool ask 0) = Exhausted
   \<and> cap_hit (respond 3 greedy_llm count_tool ask 0)
   \<and> rounds (respond 3 greedy_llm count_tool ask 0) = 3
   \<and> world (respond 3 greedy_llm count_tool ask 0) = 3"
proof -
  have d: "0 < (3::nat) \<and> tool_calls (direct_llm 0 ask) = []"
    by (simp add: direct_llm_def)
  have g: "\<forall>i c. tool_calls (greedy_llm i c) \<noteq> []"
    by (simp add: greedy_llm_def)
  have w: "world (respond 3 greedy_llm count_tool ask 0) = 3"
    by (simp add: respond_def numeral_3_eq_3 greedy_llm_def count_tool_def Let_def)
  show ?thesis
    using respond_terminates_within_cap[of 3 direct_llm count_tool ask 0] d
      respond_terminates_within_cap[of 3 greedy_llm count_tool ask 0] g w
    by blast
qed

end
